theory Spec2Isabelle
  imports Complex_Main
begin

section \<open>Python values, exceptions and the library environment\<close>

text \<open>
  The program is \<^verbatim>\<open>src/iiot_system.py\<close>. Its callback \<^verbatim>\<open>on_message\<close> receives whatever
  \<^verbatim>\<open>json.loads\<close> produces, so the payload is a dynamically typed Python value. The type
  parameter \<open>'f\<close> stands for Python's \<^verbatim>\<open>float\<close>; nothing below depends on how floats are
  represented.

  A \<^verbatim>\<open>str\<close> is given by its UTF-8 bytes (\<open>PStr\<close>). A \<^verbatim>\<open>str\<close> that holds a lone surrogate,
  which \<^verbatim>\<open>json.loads\<close> makes of an escaped code point such as U+D800, has no UTF-8 encoding; it
  is \<open>PStrLone\<close> with its code points. A dict lists its entries under the keys that have
  an encoding; no lookup with an ASCII key finds any other.
\<close>

datatype 'f pyval =
    PNone
  | PBool bool
  | PInt int
  | PFloat 'f
  | PStr string
  | PStrLone "nat list"
  | PList "'f pyval list"
  | PDict "(string \<times> 'f pyval) list"

text \<open>The exceptions that the modelled code paths can raise.\<close>

datatype error =
    UnicodeDecodeError
  | JSONDecodeError
  | KeyError string
  | TypeError
  | ValueError
  | OverflowError
  | UnicodeEncodeError
  | OperationalError
  | IntegrityError
  | ProgrammingError

text \<open>
  Library code that is called but not part of the repository is a parameter:
  \<^item> \<open>json_loads\<close> is \<^verbatim>\<open>json.loads(msg.payload.decode("utf-8"))\<close> on the payload bytes;
  \<^item> \<open>float_of_int\<close> and \<open>float_of_str\<close> are \<^verbatim>\<open>float()\<close> on an \<^verbatim>\<open>int\<close> and on a \<^verbatim>\<open>str\<close>;
  \<^item> \<open>is_nan\<close> recognises the float NaN, which SQLite binds as NULL;
  \<^item> \<open>float_to_text\<close> is the text SQLite stores when a float goes into a TEXT column.
\<close>

record 'f pylib =
  json_loads :: "string \<Rightarrow> error + 'f pyval"
  float_of_int :: "int \<Rightarrow> error + 'f"
  float_of_str :: "string \<Rightarrow> error + 'f"
  is_nan :: "'f \<Rightarrow> bool"
  float_to_text :: "'f \<Rightarrow> string"

text \<open>Sequencing of computations that may raise: the first exception wins.\<close>

definition try_bind :: "error + 'a \<Rightarrow> ('a \<Rightarrow> error + 'b) \<Rightarrow> error + 'b" where
  "try_bind m k = (case m of Inl e \<Rightarrow> Inl e | Inr x \<Rightarrow> k x)"

text \<open>\<^verbatim>\<open>payload[key]\<close>: a dict raises KeyError on a missing key; no other JSON value can
  be indexed by a string.\<close>

fun py_getitem :: "'f pyval \<Rightarrow> string \<Rightarrow> error + 'f pyval" where
  "py_getitem (PDict kvs) key =
     (case map_of kvs key of None \<Rightarrow> Inl (KeyError key) | Some v \<Rightarrow> Inr v)"
| "py_getitem _ key = Inl TypeError"

text \<open>\<^verbatim>\<open>float(x)\<close>: numbers and booleans convert, strings are parsed, everything else is a
  TypeError.\<close>

fun py_float :: "('f, 'z) pylib_scheme \<Rightarrow> 'f pyval \<Rightarrow> error + 'f" where
  "py_float lib (PFloat x) = Inr x"
| "py_float lib (PInt i) = float_of_int lib i"
| "py_float lib (PBool b) = float_of_int lib (if b then 1 else 0)"
| "py_float lib (PStr s) = float_of_str lib s"
| "py_float lib (PStrLone cs) = Inl ValueError"
| "py_float lib PNone = Inl TypeError"
| "py_float lib (PList xs) = Inl TypeError"
| "py_float lib (PDict kvs) = Inl TypeError"

section \<open>The SQLite store\<close>

text \<open>
  One table, \<^verbatim>\<open>telemetry(id INTEGER PRIMARY KEY AUTOINCREMENT, ts TEXT NOT NULL,
  sensor TEXT NOT NULL, temperature REAL NOT NULL, humidity REAL NOT NULL)\<close>.
\<close>

record 'f row =
  row_id :: int
  row_ts :: string
  row_sensor :: string
  row_temperature :: 'f
  row_humidity :: 'f

text \<open>
  The database file: \<open>available\<close> tells whether \<^verbatim>\<open>sqlite3.connect\<close> and the statement
  succeed, \<open>telemetry\<close> is the table in insertion order (\<open>None\<close> before the schema
  exists) and \<open>sqlite_sequence\<close> is the AUTOINCREMENT counter, which SQLite starts at 0
  and only ever sets to an id it has handed out.
\<close>

record 'f database =
  available :: bool
  telemetry :: "'f row list option"
  sqlite_sequence :: nat

definition db_init :: "'f database \<Rightarrow> error + ('f pyval \<times> 'f database)" where
  "db_init db =
     (if \<not> available db then Inl OperationalError
      else Inr (PNone,
                db\<lparr>telemetry := Some (case telemetry db of None \<Rightarrow> [] | Some rows \<Rightarrow> rows)\<rparr>))"

text \<open>Decimal text of an integer, as SQLite writes an INTEGER into a TEXT column.\<close>

function show_nat :: "nat \<Rightarrow> string" where
  "show_nat n =
     (if n < 10 then [char_of (48 + n)]
      else show_nat (n div 10) @ [char_of (48 + n mod 10)])"
  by pat_completeness auto
termination
  by (relation "measure id") auto

definition show_int :: "int \<Rightarrow> string" where
  "show_int i = (if i < 0 then CHR ''-'' # show_nat (nat (- i)) else show_nat (nat i))"

text \<open>
  What \<^verbatim>\<open>cur.execute\<close> hands to SQLite for one \<^verbatim>\<open>?\<close>. The \<^verbatim>\<open>sqlite3\<close> module binds
  \<^verbatim>\<open>None\<close> as NULL, a bool or int as a 64-bit INTEGER, a float as REAL and a str as its
  UTF-8 text, and SQLite takes a NaN as NULL. An int outside 64 bits raises
  OverflowError, a str with a lone surrogate UnicodeEncodeError, and a list or dict
  ProgrammingError (InterfaceError before Python 3.11).
\<close>

datatype 'f sqlval = SqlNull | SqlInteger int | SqlReal 'f | SqlText string

fun sqlite_bind :: "('f, 'z) pylib_scheme \<Rightarrow> 'f pyval \<Rightarrow> error + 'f sqlval" where
  "sqlite_bind lib PNone = Inr SqlNull"
| "sqlite_bind lib (PBool b) = Inr (SqlInteger (if b then 1 else 0))"
| "sqlite_bind lib (PInt i) =
     (if - (2 ^ 63) \<le> i \<and> i < 2 ^ 63 then Inr (SqlInteger i) else Inl OverflowError)"
| "sqlite_bind lib (PFloat x) = Inr (if is_nan lib x then SqlNull else SqlReal x)"
| "sqlite_bind lib (PStr s) = Inr (SqlText s)"
| "sqlite_bind lib (PStrLone cs) = Inl UnicodeEncodeError"
| "sqlite_bind lib (PList xs) = Inl ProgrammingError"
| "sqlite_bind lib (PDict kvs) = Inl ProgrammingError"

text \<open>A \<^verbatim>\<open>TEXT NOT NULL\<close> column rejects NULL and turns numbers into text.\<close>

fun text_not_null :: "('f, 'z) pylib_scheme \<Rightarrow> 'f sqlval \<Rightarrow> error + string" where
  "text_not_null lib SqlNull = Inl IntegrityError"
| "text_not_null lib (SqlInteger i) = Inr (show_int i)"
| "text_not_null lib (SqlReal x) = Inr (float_to_text lib x)"
| "text_not_null lib (SqlText s) = Inr s"

text \<open>What a \<^verbatim>\<open>TEXT NOT NULL\<close> column ends up holding for a Python value, if anything.\<close>

definition sqlite_text_column :: "('f, 'z) pylib_scheme \<Rightarrow> 'f pyval \<Rightarrow> error + string" where
  "sqlite_text_column lib v = try_bind (sqlite_bind lib v) (text_not_null lib)"

text \<open>A float always binds; in a \<^verbatim>\<open>REAL NOT NULL\<close> column a NaN is NULL, which the
  constraint rejects.\<close>

definition sqlite_real_column :: "('f, 'z) pylib_scheme \<Rightarrow> 'f \<Rightarrow> error + 'f" where
  "sqlite_real_column lib x = (if is_nan lib x then Inl IntegrityError else Inr x)"

text \<open>AUTOINCREMENT: one more than the largest id ever used.\<close>

definition next_rowid :: "nat \<Rightarrow> 'f row list \<Rightarrow> int" where
  "next_rowid seq rows = foldr max (map row_id rows) (int seq) + 1"

text \<open>
  \<^verbatim>\<open>db_insert\<close>. The steps fail in this order: the connection and the table
  (OperationalError), the binding of \<^verbatim>\<open>ts\<close> and \<^verbatim>\<open>sensor\<close>, the new row id, which
  AUTOINCREMENT refuses to take beyond \<^verbatim>\<open>2^63 - 1\<close> (OperationalError, "database or disk is
  full"), and the NOT NULL constraints column by column (IntegrityError). The function
  has no \<^verbatim>\<open>return\<close>: its value is \<^verbatim>\<open>None\<close>.
\<close>

definition db_insert ::
  "('f, 'z) pylib_scheme \<Rightarrow> 'f pyval \<Rightarrow> 'f pyval \<Rightarrow> 'f \<Rightarrow> 'f \<Rightarrow> 'f database
     \<Rightarrow> error + ('f pyval \<times> 'f database)" where
  "db_insert lib ts sensor temperature humidity db =
     (if \<not> available db then Inl OperationalError
      else case telemetry db of
        None \<Rightarrow> Inl OperationalError
      | Some rows \<Rightarrow>
          try_bind (sqlite_bind lib ts) (\<lambda>b_ts.
          try_bind (sqlite_bind lib sensor) (\<lambda>b_sensor.
            let i = next_rowid (sqlite_sequence db) rows in
            if 2 ^ 63 \<le> i then Inl OperationalError
            else
              try_bind (text_not_null lib b_ts) (\<lambda>c_ts.
              try_bind (text_not_null lib b_sensor) (\<lambda>c_sensor.
              try_bind (sqlite_real_column lib temperature) (\<lambda>c_temperature.
              try_bind (sqlite_real_column lib humidity) (\<lambda>c_humidity.
                Inr (PNone,
                     db\<lparr>telemetry := Some (rows @
                            [\<lparr>row_id = i, row_ts = c_ts, row_sensor = c_sensor,
                              row_temperature = c_temperature, row_humidity = c_humidity\<rparr>]),
                        sqlite_sequence := nat i\<rparr>))))))))"

text \<open>\<^verbatim>\<open>ORDER BY id DESC\<close> and \<^verbatim>\<open>LIMIT n\<close>; SQLite reads a negative limit as no limit.\<close>

definition order_by_id_desc :: "'f row list \<Rightarrow> 'f row list" where
  "order_by_id_desc rows = sort_key (\<lambda>r. - row_id r) rows"

definition sqlite_limit :: "int \<Rightarrow> 'a list \<Rightarrow> 'a list" where
  "sqlite_limit n xs = (if n < 0 then xs else take (nat n) xs)"

definition row_tuple :: "'f row \<Rightarrow> string \<times> string \<times> 'f \<times> 'f" where
  "row_tuple r = (row_ts r, row_sensor r, row_temperature r, row_humidity r)"

text \<open>\<^verbatim>\<open>db_latest\<close>. After the connection and the table, the limit \<open>n\<close> is bound as a
  64-bit INTEGER; outside that range the binding raises OverflowError.\<close>

definition db_latest :: "int \<Rightarrow> 'f database \<Rightarrow> error + (string \<times> string \<times> 'f \<times> 'f) list" where
  "db_latest n db =
     (if \<not> available db then Inl OperationalError
      else case telemetry db of
        None \<Rightarrow> Inl OperationalError
      | Some rows \<Rightarrow>
          if n < - (2 ^ 63) \<or> 2 ^ 63 \<le> n then Inl OverflowError
          else Inr (map row_tuple (sqlite_limit n (order_by_id_desc rows))))"

section \<open>The subscriber: MQTT message to row\<close>

text \<open>What the process has written to its log, in order.\<close>

datatype 'f log_entry =
    Ingested "'f pyval"
  | OnMessageError error

record 'f ingestor =
  store :: "'f database"
  logged :: "'f log_entry list"

text \<open>The body of the \<^verbatim>\<open>try\<close> block of \<^verbatim>\<open>on_message\<close>, statement by statement. It yields
  the sensor (for the log line) and the database after the insert.\<close>

definition on_message_try ::
  "('f, 'z) pylib_scheme \<Rightarrow> string \<Rightarrow> 'f database \<Rightarrow> error + ('f pyval \<times> 'f database)" where
  "on_message_try lib msg db =
     try_bind (json_loads lib msg) (\<lambda>payload.
     try_bind (py_getitem payload ''ts'') (\<lambda>ts.
     try_bind (py_getitem payload ''sensor'') (\<lambda>sensor.
     try_bind (try_bind (py_getitem payload ''temperature'') (py_float lib)) (\<lambda>temperature.
     try_bind (try_bind (py_getitem payload ''humidity'') (py_float lib)) (\<lambda>humidity.
     try_bind (db_insert lib ts sensor temperature humidity db) (\<lambda>(none, db').
       Inr (sensor, db')))))))"

text \<open>\<^verbatim>\<open>on_message\<close>: \<^verbatim>\<open>except Exception\<close> turns every exception of the body into a log
  entry. The result is a sum so that "does not raise" is a statement about the model.\<close>

definition on_message ::
  "('f, 'z) pylib_scheme \<Rightarrow> string \<Rightarrow> 'f ingestor \<Rightarrow> error + 'f ingestor" where
  "on_message lib msg s =
     (case on_message_try lib msg (store s) of
        Inr (sensor, db') \<Rightarrow> Inr \<lparr>store = db', logged = logged s @ [Ingested sensor]\<rparr>
      | Inl e \<Rightarrow> Inr \<lparr>store = store s, logged = logged s @ [OnMessageError e]\<rparr>)"

text \<open>
  \<^verbatim>\<open>client.loop_forever()\<close> hands the messages to \<^verbatim>\<open>on_message\<close> one at a time. Each
  message comes with the condition of the storage at that moment; an exception that
  left the callback would end the loop.
\<close>

fun subscriber_loop ::
  "('f, 'z) pylib_scheme \<Rightarrow> (bool \<times> string) list \<Rightarrow> 'f ingestor \<Rightarrow> error + 'f ingestor" where
  "subscriber_loop lib [] s = Inr s"
| "subscriber_loop lib ((up, msg) # rest) s =
     (case on_message lib msg (s\<lparr>store := (store s)\<lparr>available := up\<rparr>\<rparr>) of
        Inl e \<Rightarrow> Inl e
      | Inr s' \<Rightarrow> subscriber_loop lib rest s')"

section \<open>The OPC UA server: latest row to live variables\<close>

record 'f live =
  v_temp :: 'f
  v_hum :: 'f
  v_sensor :: string

text \<open>One pass through the body of \<^verbatim>\<open>while True\<close> in \<^verbatim>\<open>run_opcua_server\<close>. The row read
  back holds floats and a string, on which \<^verbatim>\<open>float\<close> and \<^verbatim>\<open>str\<close> are the identity.\<close>

definition opcua_tick ::
  "('f, 'z) pylib_scheme \<Rightarrow> 'f database \<Rightarrow> 'f live \<Rightarrow> error + 'f live" where
  "opcua_tick lib db vars =
     try_bind (db_latest 1 db) (\<lambda>rows.
       case rows of
         [] \<Rightarrow> Inr vars
       | (ts, sensor, temperature, humidity) # _ \<Rightarrow>
           try_bind (py_float lib (PFloat temperature)) (\<lambda>t.
           try_bind (py_float lib (PFloat humidity)) (\<lambda>h.
             Inr (vars\<lparr>v_temp := t, v_hum := h, v_sensor := sensor\<rparr>))))"

text \<open>
  The loop of \<^verbatim>\<open>run_opcua_server\<close>. The list holds the database as each successive tick
  finds it (other processes write to it between ticks); when it is used up the operator
  interrupts the process. Only \<^verbatim>\<open>KeyboardInterrupt\<close> is handled, so any exception of a
  tick leaves the loop.
\<close>

datatype loop_exit = Interrupted | Crashed error

fun opcua_loop ::
  "('f, 'z) pylib_scheme \<Rightarrow> 'f database list \<Rightarrow> 'f live \<Rightarrow> 'f live \<times> loop_exit" where
  "opcua_loop lib [] vars = (vars, Interrupted)"
| "opcua_loop lib (db # rest) vars =
     (case opcua_tick lib db vars of
        Inl e \<Rightarrow> (vars, Crashed e)
      | Inr vars' \<Rightarrow> opcua_loop lib rest vars')"

text \<open>A run of consecutive inserts, stopping at the first one that raises.\<close>

fun db_insert_all ::
  "('f, 'z) pylib_scheme \<Rightarrow> ('f pyval \<times> 'f pyval \<times> 'f \<times> 'f) list \<Rightarrow> 'f database
     \<Rightarrow> error + 'f database" where
  "db_insert_all lib [] db = Inr db"
| "db_insert_all lib ((ts, sensor, temperature, humidity) # rest) db =
     (case db_insert lib ts sensor temperature humidity db of
        Inl e \<Rightarrow> Inl e
      | Inr (none, db') \<Rightarrow> db_insert_all lib rest db')"

section \<open>A concrete environment for evaluation\<close>

text \<open>
  Floats are taken as the real numbers they denote. The environment agrees with CPython
  and SQLite on the inputs evaluated in this theory: it knows the payloads listed in
  \<open>example_payloads\<close>, parses decimal literals of the form \<^verbatim>\<open>digits.digits\<close>, and has no
  NaN. No evaluation below puts a float into a TEXT column, so \<open>float_to_text\<close> is left
  empty.
\<close>

definition parse_digits :: "string \<Rightarrow> nat option" where
  "parse_digits s =
     (if s \<noteq> [] \<and> list_all (\<lambda>c. (48::nat) \<le> of_char c \<and> of_char c \<le> (57::nat)) s
      then Some (foldl (\<lambda>n c. 10 * n + (of_char c - 48)) 0 s) else None)"

definition example_float_of_str :: "string \<Rightarrow> error + real" where
  "example_float_of_str s =
     (let whole = takeWhile (\<lambda>c. c \<noteq> CHR ''.'') s;
          frac = drop (length whole + 1) s
      in case (parse_digits whole, parse_digits frac) of
           (Some w, Some f) \<Rightarrow> Inr (real w + real f / 10 ^ length frac)
         | _ \<Rightarrow> Inl ValueError)"

definition msg_valid :: string where
  "msg_valid = ''{\"ts\": \"2024-01-01T00:00:00\", \"sensor\": \"sensor-001\", \"temperature\": 24.5, \"humidity\": 55.0}''"

definition msg_missing :: string where
  "msg_missing = ''{\"sensor\": \"x\"}''"

definition msg_text_temperature :: string where
  "msg_text_temperature = ''{\"ts\": \"t1\", \"sensor\": \"s1\", \"temperature\": \"24.5\", \"humidity\": 55.0}''"

definition msg_extra_key :: string where
  "msg_extra_key = ''{\"ts\": \"t2\", \"sensor\": \"s2\", \"temperature\": 21, \"humidity\": 40.5, \"unit\": \"C\"}''"

definition msg_null_temperature :: string where
  "msg_null_temperature = ''{\"ts\": \"t3\", \"sensor\": \"s3\", \"temperature\": null, \"humidity\": 50.0}''"

definition example_payloads :: "(string \<times> real pyval) list" where
  "example_payloads =
     [(msg_valid, PDict [(''ts'', PStr ''2024-01-01T00:00:00''), (''sensor'', PStr ''sensor-001''),
                         (''temperature'', PFloat 24.5), (''humidity'', PFloat 55)]),
      (msg_missing, PDict [(''sensor'', PStr ''x'')]),
      (msg_text_temperature, PDict [(''ts'', PStr ''t1''), (''sensor'', PStr ''s1''),
                         (''temperature'', PStr ''24.5''), (''humidity'', PFloat 55)]),
      (msg_null_temperature, PDict [(''ts'', PStr ''t3''), (''sensor'', PStr ''s3''),
                         (''temperature'', PNone), (''humidity'', PFloat 50)]),
      (msg_extra_key, PDict [(''ts'', PStr ''t2''), (''sensor'', PStr ''s2''),
                         (''temperature'', PInt 21), (''humidity'', PFloat 40.5),
                         (''unit'', PStr ''C'')])]"

definition example_lib :: "real pylib" where
  "example_lib =
     \<lparr>json_loads = (\<lambda>msg. case map_of example_payloads msg of
                             None \<Rightarrow> Inl JSONDecodeError | Some v \<Rightarrow> Inr v),
      float_of_int = (\<lambda>i. Inr (of_int i)),
      float_of_str = example_float_of_str,
      is_nan = (\<lambda>x. False),
      float_to_text = (\<lambda>x. [])\<rparr>"

text \<open>
  A second environment, with a NaN: a float is a real number or NaN. It knows the
  payloads of \<open>nan_payloads\<close>; \<^verbatim>\<open>json.loads\<close> reads the token \<^verbatim>\<open>NaN\<close> as the float NaN and
  the escaped code point U+D800 as a lone surrogate.
\<close>

datatype xfloat = Number real | NaN

definition msg_nan_temperature :: string where
  "msg_nan_temperature = ''{\"ts\": \"t4\", \"sensor\": \"s4\", \"temperature\": NaN, \"humidity\": 50.0}''"

definition msg_surrogate_ts :: string where
  "msg_surrogate_ts = ''{\"ts\": \"'' @ [CHR 0x5C] @ ''ud800\", \"sensor\": \"s5\", \"temperature\": 20.5, \"humidity\": 50.0}''"

definition msg_nan_extra_key :: string where
  "msg_nan_extra_key = ''{\"ts\": \"t6\", \"sensor\": \"s6\", \"temperature\": 21, \"humidity\": NaN, \"unit\": \"C\"}''"

definition nan_payloads :: "(string \<times> xfloat pyval) list" where
  "nan_payloads =
     [(msg_valid, PDict [(''ts'', PStr ''2024-01-01T00:00:00''), (''sensor'', PStr ''sensor-001''),
                         (''temperature'', PFloat (Number 24.5)), (''humidity'', PFloat (Number 55))]),
      (msg_nan_temperature, PDict [(''ts'', PStr ''t4''), (''sensor'', PStr ''s4''),
                         (''temperature'', PFloat NaN), (''humidity'', PFloat (Number 50))]),
      (msg_surrogate_ts, PDict [(''ts'', PStrLone [55296]), (''sensor'', PStr ''s5''),
                         (''temperature'', PFloat (Number 20.5)), (''humidity'', PFloat (Number 50))]),
      (msg_nan_extra_key, PDict [(''ts'', PStr ''t6''), (''sensor'', PStr ''s6''),
                         (''temperature'', PInt 21), (''humidity'', PFloat NaN),
                         (''unit'', PStr ''C'')])]"

definition nan_lib :: "xfloat pylib" where
  "nan_lib =
     \<lparr>json_loads = (\<lambda>msg. case map_of nan_payloads msg of
                             None \<Rightarrow> Inl JSONDecodeError | Some v \<Rightarrow> Inr v),
      float_of_int = (\<lambda>i. Inr (Number (of_int i))),
      float_of_str = (\<lambda>s. if s = ''nan'' then Inr NaN
                           else case example_float_of_str s of
                                  Inl e \<Rightarrow> Inl e | Inr x \<Rightarrow> Inr (Number x)),
      is_nan = (\<lambda>x. x = NaN),
      float_to_text = (\<lambda>x. [])\<rparr>"

definition empty_db :: "'f database" where
  "empty_db = \<lparr>available = True, telemetry = None, sqlite_sequence = 0\<rparr>"

definition fresh_db :: "'f database" where
  "fresh_db = \<lparr>available = True, telemetry = Some [], sqlite_sequence = 0\<rparr>"

text \<open>The same component calling \<^verbatim>\<open>db_init\<close> several times in a row.\<close>

fun db_init_repeat :: "nat \<Rightarrow> 'f database \<Rightarrow> error + 'f database" where
  "db_init_repeat 0 db = Inr db"
| "db_init_repeat (Suc k) db =
     (case db_init db of Inl e \<Rightarrow> Inl e | Inr (none, db') \<Rightarrow> db_init_repeat k db')"

text \<open>A row holds the arguments of one \<^verbatim>\<open>db_insert\<close> call as the columns store them.\<close>

definition stored_as ::
  "('f, 'z) pylib_scheme \<Rightarrow> 'f pyval \<times> 'f pyval \<times> 'f \<times> 'f \<Rightarrow> 'f row \<Rightarrow> bool" where
  "stored_as lib args r =
     (case args of (ts, sensor, temperature, humidity) \<Rightarrow>
        sqlite_text_column lib ts = Inr (row_ts r) \<and>
        sqlite_text_column lib sensor = Inr (row_sensor r) \<and>
        row_temperature r = temperature \<and> row_humidity r = humidity)"

definition two_rows_db :: "real database" where
  "two_rows_db =
     \<lparr>available = True,
      telemetry = Some
        [\<lparr>row_id = 1, row_ts = ''t1'', row_sensor = ''s1'', row_temperature = 20, row_humidity = 40\<rparr>,
         \<lparr>row_id = 2, row_ts = ''t2'', row_sensor = ''s2'', row_temperature = 21, row_humidity = 41\<rparr>],
      sqlite_sequence = 2\<rparr>"

text \<open>The live variables as \<^verbatim>\<open>run_opcua_server\<close> creates them.\<close>

definition initial_vars :: "real live" where
  "initial_vars = \<lparr>v_temp = 0, v_hum = 0, v_sensor = ''sensor-001''\<rparr>"

section \<open>Auxiliary facts\<close>

lemma try_bind_Inl: "try_bind (Inl e) k = Inl e"
  by (simp add: try_bind_def)

lemma try_bind_Inr: "try_bind (Inr x) k = k x"
  by (simp add: try_bind_def)

lemma try_bind_eq_Inr:
  "try_bind m k = Inr y \<longleftrightarrow> (\<exists>x. m = Inr x \<and> k x = Inr y)"
  by (cases m) (simp_all add: try_bind_def)

lemma insort_key_past:
  "\<forall>y\<in>set front. f y < f x \<Longrightarrow>
     insort_key f x (front @ back) = front @ insort_key f x back"
  by (induction front) auto

lemma foldr_insort_key_past:
  "\<forall>x\<in>set xs. \<forall>y\<in>set front. f y < f x \<Longrightarrow>
     foldr (insort_key f) xs (front @ back) = front @ foldr (insort_key f) xs back"
  by (induction xs) (simp_all add: insort_key_past)

lemma order_by_id_desc_increasing:
  "sorted_wrt (<) (map row_id new) \<Longrightarrow> order_by_id_desc new = rev new"
proof (induction new)
  case Nil
  show ?case by (simp add: order_by_id_desc_def)
next
  case (Cons r new)
  then have tail: "order_by_id_desc new = rev new"
    and above: "\<forall>y\<in>set (rev new). - row_id y < - row_id r"
    by auto
  have "order_by_id_desc (r # new) = insort_key (\<lambda>r. - row_id r) r (rev new @ [])"
    using tail by (simp add: order_by_id_desc_def)
  also have "\<dots> = rev new @ insort_key (\<lambda>r. - row_id r) r []"
    using above by (rule insort_key_past)
  finally show ?case by simp
qed

lemma order_by_id_desc_append:
  assumes "sorted_wrt (<) (map row_id new)"
    and "\<forall>r\<in>set rows. \<forall>r'\<in>set new. row_id r < row_id r'"
  shows "order_by_id_desc (rows @ new) = rev new @ order_by_id_desc rows"
proof -
  have "order_by_id_desc (rows @ new)
          = foldr (insort_key (\<lambda>r. - row_id r)) rows (order_by_id_desc new @ [])"
    by (simp add: order_by_id_desc_def sort_key_def)
  also have "\<dots> = foldr (insort_key (\<lambda>r. - row_id r)) rows (rev new @ [])"
    using assms(1) by (simp add: order_by_id_desc_increasing)
  also have "\<dots> = rev new @ foldr (insort_key (\<lambda>r. - row_id r)) rows []"
    using assms(2) by (intro foldr_insort_key_past) auto
  finally show ?thesis by (simp add: order_by_id_desc_def sort_key_def)
qed

lemma foldr_max_ge: "seq \<le> foldr max xs (seq :: int)"
  by (induction xs) auto

lemma foldr_max_member: "x \<in> set xs \<Longrightarrow> x \<le> foldr max xs (seq :: int)"
  by (induction xs) auto

lemma next_rowid_above_rows: "r \<in> set rows \<Longrightarrow> row_id r < next_rowid seq rows"
  using foldr_max_member [of "row_id r" "map row_id rows" "int seq"]
  by (simp add: next_rowid_def)

lemma next_rowid_above_sequence: "int seq < next_rowid seq rows"
  using foldr_max_ge [of "int seq" "map row_id rows"] by (simp add: next_rowid_def)

lemma sqlite_text_column_PStr: "sqlite_text_column lib (PStr s) = Inr s"
  by (simp add: sqlite_text_column_def try_bind_def)

lemma increasing_ids_length:
  fixes xs :: "int list"
  shows "sorted_wrt (<) xs \<Longrightarrow> \<forall>x\<in>set xs. lo < x \<and> x < hi \<Longrightarrow> xs \<noteq> [] \<Longrightarrow>
           int (length xs) < hi - lo"
proof (induction xs arbitrary: lo)
  case Nil
  then show ?case by simp
next
  case (Cons x xs)
  show ?case
  proof (cases "xs = []")
    case True
    with Cons.prems show ?thesis by simp
  next
    case False
    have "int (length xs) < hi - x"
      using Cons.prems False by (intro Cons.IH) auto
    moreover have "lo < x"
      using Cons.prems by simp
    ultimately show ?thesis by simp
  qed
qed

lemma db_insert_eq_Inr:
  "db_insert lib ts sensor t h db = Inr (ret, db') \<longleftrightarrow>
     available db \<and> ret = PNone \<and>
     (\<exists>rows a b. telemetry db = Some rows
        \<and> sqlite_text_column lib ts = Inr a \<and> sqlite_text_column lib sensor = Inr b
        \<and> \<not> is_nan lib t \<and> \<not> is_nan lib h
        \<and> next_rowid (sqlite_sequence db) rows < 2 ^ 63
        \<and> db' = db\<lparr>telemetry := Some (rows @
                     [\<lparr>row_id = next_rowid (sqlite_sequence db) rows, row_ts = a,
                       row_sensor = b, row_temperature = t, row_humidity = h\<rparr>]),
                   sqlite_sequence := nat (next_rowid (sqlite_sequence db) rows)\<rparr>)"
  by (cases "telemetry db")
     (auto simp: db_insert_def sqlite_text_column_def try_bind_eq_Inr sqlite_real_column_def
        Let_def split: if_splits)

lemma db_insert_accepts:
  assumes "available db" "telemetry db = Some rows"
    and "sqlite_text_column lib ts = Inr a" "sqlite_text_column lib sensor = Inr b"
    and "\<not> is_nan lib t" "\<not> is_nan lib h"
    and "next_rowid (sqlite_sequence db) rows < 2 ^ 63"
  shows "db_insert lib ts sensor t h db =
           Inr (PNone, db\<lparr>telemetry := Some (rows @
                     [\<lparr>row_id = next_rowid (sqlite_sequence db) rows, row_ts = a,
                       row_sensor = b, row_temperature = t, row_humidity = h\<rparr>]),
                   sqlite_sequence := nat (next_rowid (sqlite_sequence db) rows)\<rparr>)"
  using assms by (simp add: db_insert_eq_Inr)

lemma db_insert_refuses_nan:
  assumes "available db" "telemetry db = Some rows"
    and "sqlite_text_column lib ts = Inr a" "sqlite_text_column lib sensor = Inr b"
    and "next_rowid (sqlite_sequence db) rows < 2 ^ 63"
    and "is_nan lib t \<or> is_nan lib h"
  shows "db_insert lib ts sensor t h db = Inl IntegrityError"
proof -
  from assms(3) obtain b_ts where ts: "sqlite_bind lib ts = Inr b_ts" "text_not_null lib b_ts = Inr a"
    by (auto simp: sqlite_text_column_def try_bind_eq_Inr)
  from assms(4) obtain b_sensor
    where sensor: "sqlite_bind lib sensor = Inr b_sensor" "text_not_null lib b_sensor = Inr b"
    by (auto simp: sqlite_text_column_def try_bind_eq_Inr)
  show ?thesis
    using assms(1,2,5,6) ts sensor
    by (auto simp: db_insert_def try_bind_def sqlite_real_column_def Let_def)
qed

lemma db_latest_after_append:
  assumes "available db" "telemetry db = Some (rows @ new)"
    and "sorted_wrt (<) (map row_id new)"
    and "\<forall>r\<in>set rows. \<forall>r'\<in>set new. row_id r < row_id r'"
    and "int (length new) < 2 ^ 63"
  shows "db_latest (int (length new)) db = Inr (rev (map row_tuple new))"
proof -
  have "\<not> (int (length new) < - (2 ^ 63) \<or> 2 ^ 63 \<le> int (length new))"
    using assms(5) by simp
  then show ?thesis
    using assms(1-4)
    by (simp add: db_latest_def sqlite_limit_def order_by_id_desc_append rev_map)
qed

lemma on_message_try_accepts:
  assumes "json_loads lib msg = Inr (PDict kvs)"
    and "map_of kvs ''ts'' = Some x_ts" "map_of kvs ''sensor'' = Some x_sensor"
    and "map_of kvs ''temperature'' = Some x_temp" "map_of kvs ''humidity'' = Some x_hum"
    and "py_float lib x_temp = Inr t" "py_float lib x_hum = Inr h"
  shows "on_message_try lib msg db =
           try_bind (db_insert lib x_ts x_sensor t h db) (\<lambda>(none, db'). Inr (x_sensor, db'))"
  using assms by (simp add: on_message_try_def try_bind_Inr)

lemma nan_lib_loads_nan_temperature:
  "json_loads nan_lib msg_nan_temperature
     = Inr (PDict [(''ts'', PStr ''t4''), (''sensor'', PStr ''s4''),
                   (''temperature'', PFloat NaN), (''humidity'', PFloat (Number 50))])"
  by (simp add: nan_lib_def nan_payloads_def msg_valid_def msg_nan_temperature_def)

lemma nan_lib_loads_surrogate_ts:
  "json_loads nan_lib msg_surrogate_ts
     = Inr (PDict [(''ts'', PStrLone [55296]), (''sensor'', PStr ''s5''),
                   (''temperature'', PFloat (Number 20.5)), (''humidity'', PFloat (Number 50))])"
  by (simp add: nan_lib_def nan_payloads_def msg_valid_def msg_nan_temperature_def
      msg_surrogate_ts_def)

lemma nan_lib_loads_nan_extra_key:
  "json_loads nan_lib msg_nan_extra_key
     = Inr (PDict [(''ts'', PStr ''t6''), (''sensor'', PStr ''s6''),
                   (''temperature'', PInt 21), (''humidity'', PFloat NaN),
                   (''unit'', PStr ''C'')])"
  by (simp add: nan_lib_def nan_payloads_def msg_valid_def msg_nan_temperature_def
      msg_surrogate_ts_def msg_nan_extra_key_def)

section \<open>The claims\<close>

text \<open>
  \<^bold>\<open>C1\<close>, as stated, fails for two messages of the wire format's shape. With a
  temperature that is the float NaN (\<^verbatim>\<open>json.loads\<close> reads the token \<^verbatim>\<open>NaN\<close>), SQLite takes
  the NaN as NULL and the NOT NULL column refuses the row. With a \<^verbatim>\<open>ts\<close> that holds a
  lone surrogate, the string cannot be bound. Both messages are logged and discarded,
  and \<^verbatim>\<open>db_latest(1)\<close> finds no record.
\<close>

theorem on_message_drops_nan:
  "on_message nan_lib msg_nan_temperature \<lparr>store = fresh_db, logged = []\<rparr>
     = Inr \<lparr>store = fresh_db, logged = [OnMessageError IntegrityError]\<rparr>
   \<and> on_message nan_lib msg_surrogate_ts \<lparr>store = fresh_db, logged = []\<rparr>
     = Inr \<lparr>store = fresh_db, logged = [OnMessageError UnicodeEncodeError]\<rparr>
   \<and> db_latest 1 (fresh_db :: xfloat database) = Inr []"
proof -
  have "on_message nan_lib msg_nan_temperature \<lparr>store = fresh_db, logged = []\<rparr>
     = Inr \<lparr>store = fresh_db, logged = [OnMessageError IntegrityError]\<rparr>"
    using nan_lib_loads_nan_temperature
    by (simp add: on_message_def on_message_try_def try_bind_def db_insert_def
        sqlite_real_column_def next_rowid_def fresh_db_def nan_lib_def)
  moreover have "on_message nan_lib msg_surrogate_ts \<lparr>store = fresh_db, logged = []\<rparr>
     = Inr \<lparr>store = fresh_db, logged = [OnMessageError UnicodeEncodeError]\<rparr>"
    using nan_lib_loads_surrogate_ts
    by (simp add: on_message_def on_message_try_def try_bind_def db_insert_def fresh_db_def)
  moreover have "db_latest 1 (fresh_db :: xfloat database) = Inr []"
    by (simp add: db_latest_def fresh_db_def sqlite_limit_def order_by_id_desc_def)
  ultimately show ?thesis by simp
qed

text \<open>
  \<^bold>\<open>C1\<close>, amended. The message decodes to a mapping whose \<^verbatim>\<open>ts\<close> and \<^verbatim>\<open>sensor\<close> are strings
  with a UTF-8 encoding and whose \<^verbatim>\<open>temperature\<close> and \<^verbatim>\<open>humidity\<close> are coerced by \<^verbatim>\<open>float()\<close>
  to \<open>t\<close> and \<open>h\<close>; the store is reachable, has its table and has a row id left. If
  neither \<open>t\<close> nor \<open>h\<close> is NaN, \<^verbatim>\<open>on_message\<close> returns normally and the newest row read
  back carries the message's \<^verbatim>\<open>ts\<close> and \<^verbatim>\<open>sensor\<close> with \<open>t\<close> and \<open>h\<close>. If one of them is NaN,
  \<^verbatim>\<open>on_message\<close> returns normally with the NOT NULL violation logged and the store
  unchanged.
\<close>

theorem on_message_then_latest:
  assumes "json_loads lib msg = Inr (PDict kvs)"
    and "map_of kvs ''ts'' = Some (PStr a)" "map_of kvs ''sensor'' = Some (PStr b)"
    and "map_of kvs ''temperature'' = Some x_temp" "map_of kvs ''humidity'' = Some x_hum"
    and "py_float lib x_temp = Inr t" "py_float lib x_hum = Inr h"
    and "available (store s)" "telemetry (store s) = Some rows"
    and "next_rowid (sqlite_sequence (store s)) rows < 2 ^ 63"
  shows "(\<not> is_nan lib t \<and> \<not> is_nan lib h \<longrightarrow>
            (\<exists>s'. on_message lib msg s = Inr s'
                \<and> db_latest 1 (store s') = Inr [(a, b, t, h)]))
       \<and> (is_nan lib t \<or> is_nan lib h \<longrightarrow>
            on_message lib msg s
              = Inr \<lparr>store = store s, logged = logged s @ [OnMessageError IntegrityError]\<rparr>)"
proof -
  let ?r = "\<lparr>row_id = next_rowid (sqlite_sequence (store s)) rows, row_ts = a,
              row_sensor = b, row_temperature = t, row_humidity = h\<rparr>"
  let ?db = "(store s)\<lparr>telemetry := Some (rows @ [?r]),
                        sqlite_sequence := nat (next_rowid (sqlite_sequence (store s)) rows)\<rparr>"
  have body: "on_message_try lib msg (store s) =
      try_bind (db_insert lib (PStr a) (PStr b) t h (store s)) (\<lambda>(none, db'). Inr (PStr b, db'))"
    using assms(1-7) by (rule on_message_try_accepts)
  have stored: "\<exists>s'. on_message lib msg s = Inr s' \<and> db_latest 1 (store s') = Inr [(a, b, t, h)]"
    if "\<not> is_nan lib t \<and> \<not> is_nan lib h"
  proof -
    have "db_insert lib (PStr a) (PStr b) t h (store s) = Inr (PNone, ?db)"
      using assms(8,9) sqlite_text_column_PStr sqlite_text_column_PStr that assms(10)
      by (intro db_insert_accepts) simp_all
    then have run: "on_message lib msg s
        = Inr \<lparr>store = ?db, logged = logged s @ [Ingested (PStr b)]\<rparr>"
      using body by (simp add: on_message_def try_bind_Inr)
    have "db_latest (int (length [?r])) ?db = Inr (rev (map row_tuple [?r]))"
      using assms(8) by (intro db_latest_after_append [where rows = rows])
        (simp_all add: next_rowid_above_rows)
    then have "db_latest 1 ?db = Inr [(a, b, t, h)]"
      by (simp add: row_tuple_def)
    with run show ?thesis by simp
  qed
  have dropped: "on_message lib msg s
      = Inr \<lparr>store = store s, logged = logged s @ [OnMessageError IntegrityError]\<rparr>"
    if "is_nan lib t \<or> is_nan lib h"
  proof -
    have "db_insert lib (PStr a) (PStr b) t h (store s) = Inl IntegrityError"
      using assms(8,9) sqlite_text_column_PStr sqlite_text_column_PStr assms(10) that
      by (rule db_insert_refuses_nan)
    then show ?thesis
      using body by (simp add: on_message_def try_bind_Inl)
  qed
  from stored dropped show ?thesis by blast
qed

theorem on_message_then_latest_witness:
  "(\<exists>s'. on_message example_lib msg_valid \<lparr>store = fresh_db, logged = []\<rparr> = Inr s'
      \<and> db_latest 1 (store s') = Inr [(''2024-01-01T00:00:00'', ''sensor-001'', 24.5, 55)])
   \<and> on_message nan_lib msg_nan_temperature \<lparr>store = fresh_db, logged = []\<rparr>
       = Inr \<lparr>store = fresh_db, logged = [OnMessageError IntegrityError]\<rparr>"
proof -
  let ?kvs = "[(''ts'', PStr ''2024-01-01T00:00:00''), (''sensor'', PStr ''sensor-001''),
               (''temperature'', PFloat (24.5 :: real)), (''humidity'', PFloat 55)]"
  let ?s = "\<lparr>store = fresh_db, logged = ([] :: real log_entry list)\<rparr>"
  have loads: "json_loads example_lib msg_valid = Inr (PDict ?kvs)"
    by code_simp
  have keys: "map_of ?kvs ''ts'' = Some (PStr ''2024-01-01T00:00:00'')"
    "map_of ?kvs ''sensor'' = Some (PStr ''sensor-001'')"
    "map_of ?kvs ''temperature'' = Some (PFloat 24.5)" "map_of ?kvs ''humidity'' = Some (PFloat 55)"
    by simp_all
  have nums: "py_float example_lib (PFloat 24.5) = Inr 24.5"
    "py_float example_lib (PFloat 55) = Inr 55"
    by simp_all
  have db: "available (store ?s)" "telemetry (store ?s) = Some []"
    "next_rowid (sqlite_sequence (store ?s)) ([] :: real row list) < 2 ^ 63"
    by (simp_all add: fresh_db_def next_rowid_def)
  have fine: "\<not> is_nan example_lib 24.5 \<and> \<not> is_nan example_lib 55"
    by (simp add: example_lib_def)
  let ?nkvs = "[(''ts'', PStr ''t4''), (''sensor'', PStr ''s4''),
                (''temperature'', PFloat NaN), (''humidity'', PFloat (Number 50))]"
  let ?ns = "\<lparr>store = fresh_db, logged = ([] :: xfloat log_entry list)\<rparr>"
  have nloads: "json_loads nan_lib msg_nan_temperature = Inr (PDict ?nkvs)"
    by (rule nan_lib_loads_nan_temperature)
  have nkeys: "map_of ?nkvs ''ts'' = Some (PStr ''t4'')" "map_of ?nkvs ''sensor'' = Some (PStr ''s4'')"
    "map_of ?nkvs ''temperature'' = Some (PFloat NaN)"
    "map_of ?nkvs ''humidity'' = Some (PFloat (Number 50))"
    by simp_all
  have nnums: "py_float nan_lib (PFloat NaN) = Inr NaN"
    "py_float nan_lib (PFloat (Number 50)) = Inr (Number 50)"
    by simp_all
  have ndb: "available (store ?ns)" "telemetry (store ?ns) = Some []"
    "next_rowid (sqlite_sequence (store ?ns)) ([] :: xfloat row list) < 2 ^ 63"
    by (simp_all add: fresh_db_def next_rowid_def)
  have bad: "is_nan nan_lib NaN \<or> is_nan nan_lib (Number 50)"
    by (simp add: nan_lib_def)
  from on_message_then_latest [OF loads keys nums db] fine
    on_message_then_latest [OF nloads nkeys nnums ndb] bad
  show ?thesis by simp
qed

lemma db_insert_keeps_order:
  assumes "db_insert lib ts sensor t h db = Inr (ret, db')"
    and "telemetry db = Some rows" "sorted_wrt (<) (map row_id rows)"
  shows "\<exists>r. telemetry db' = Some (rows @ [r]) \<and> sorted_wrt (<) (map row_id (rows @ [r]))"
  using assms by (auto simp: db_insert_eq_Inr sorted_wrt_append next_rowid_above_rows)

lemma db_insert_all_rows:
  assumes "db_insert_all lib recs db = Inr db'" and "telemetry db = Some rows"
  shows "\<exists>new. telemetry db' = Some (rows @ new)
           \<and> available db' = available db
           \<and> list_all2 (stored_as lib) recs new
           \<and> sorted_wrt (<) (map row_id new)
           \<and> (\<forall>r\<in>set rows. \<forall>r'\<in>set new. row_id r < row_id r')
           \<and> (\<forall>r'\<in>set new. int (sqlite_sequence db) < row_id r' \<and> row_id r' < 2 ^ 63)"
  using assms
proof (induction recs arbitrary: db rows)
  case Nil
  then show ?case by simp
next
  case (Cons rec recs)
  obtain ts sensor t h where rec: "rec = (ts, sensor, t, h)"
    by (cases rec) auto
  from Cons.prems(1) obtain ret db1
    where first: "db_insert lib ts sensor t h db = Inr (ret, db1)"
      and rest: "db_insert_all lib recs db1 = Inr db'"
    by (auto simp: rec split: sum.splits)
  let ?i = "next_rowid (sqlite_sequence db) rows"
  from first Cons.prems(2) obtain a b
    where a: "sqlite_text_column lib ts = Inr a" and b: "sqlite_text_column lib sensor = Inr b"
      and room: "?i < 2 ^ 63"
      and db1: "db1 = db\<lparr>telemetry := Some (rows @
                     [\<lparr>row_id = ?i, row_ts = a,
                       row_sensor = b, row_temperature = t, row_humidity = h\<rparr>]),
                   sqlite_sequence := nat ?i\<rparr>"
    by (auto simp: db_insert_eq_Inr)
  let ?r = "\<lparr>row_id = ?i, row_ts = a,
              row_sensor = b, row_temperature = t, row_humidity = h\<rparr>"
  have above: "int (sqlite_sequence db) < ?i"
    by (rule next_rowid_above_sequence)
  have t1: "telemetry db1 = Some (rows @ [?r])"
    by (simp add: db1)
  have s1: "int (sqlite_sequence db1) = ?i"
    using above by (simp add: db1)
  from Cons.IH [OF rest t1] obtain new
    where tel: "telemetry db' = Some ((rows @ [?r]) @ new)"
      and av: "available db' = available db1"
      and st: "list_all2 (stored_as lib) recs new"
      and so: "sorted_wrt (<) (map row_id new)"
      and ab: "\<forall>r\<in>set (rows @ [?r]). \<forall>r'\<in>set new. row_id r < row_id r'"
      and rg: "\<forall>r'\<in>set new. int (sqlite_sequence db1) < row_id r' \<and> row_id r' < 2 ^ 63"
    by blast
  have "telemetry db' = Some (rows @ (?r # new))"
    using tel by simp
  moreover have "available db' = available db"
    using av by (simp add: db1)
  moreover have "list_all2 (stored_as lib) (rec # recs) (?r # new)"
    using st a b by (simp add: rec stored_as_def)
  moreover have "sorted_wrt (<) (map row_id (?r # new))"
    using so ab by simp
  moreover have "\<forall>r\<in>set rows. \<forall>r'\<in>set (?r # new). row_id r < row_id r'"
    using ab by (auto simp: next_rowid_above_rows)
  moreover have "\<forall>r'\<in>set (?r # new). int (sqlite_sequence db) < row_id r' \<and> row_id r' < 2 ^ 63"
    using rg s1 above room by auto
  ultimately show ?case by blast
qed

text \<open>
  \<^bold>\<open>C2.\<close> Appends are monotonic. After any run of successful \<^verbatim>\<open>db_insert\<close> calls the table
  holds the old rows followed by one new row per call, in call order; the ids of the
  new rows are strictly increasing and above every older id; and \<^verbatim>\<open>db_latest(N)\<close>, for
  \<open>N\<close> the number of calls, returns exactly the new rows, last call first.
\<close>

theorem db_insert_all_monotonic:
  assumes "db_insert_all lib recs db = Inr db'"
    and "available db" and "telemetry db = Some rows"
  shows "\<exists>new. telemetry db' = Some (rows @ new)
           \<and> list_all2 (stored_as lib) recs new
           \<and> sorted_wrt (<) (map row_id new)
           \<and> (\<forall>r\<in>set rows. \<forall>r'\<in>set new. row_id r < row_id r')
           \<and> db_latest (int (length recs)) db' = Inr (rev (map row_tuple new))"
proof -
  from db_insert_all_rows [OF assms(1,3)] obtain new
    where tel: "telemetry db' = Some (rows @ new)"
      and av: "available db' = available db"
      and st: "list_all2 (stored_as lib) recs new"
      and so: "sorted_wrt (<) (map row_id new)"
      and ab: "\<forall>r\<in>set rows. \<forall>r'\<in>set new. row_id r < row_id r'"
      and rg: "\<forall>r'\<in>set new. int (sqlite_sequence db) < row_id r' \<and> row_id r' < 2 ^ 63"
    by blast
  have len: "length recs = length new"
    using st by (rule list_all2_lengthD)
  have few: "int (length new) < 2 ^ 63"
  proof (cases "new = []")
    case True
    then show ?thesis by simp
  next
    case False
    have "int (length (map row_id new)) < 2 ^ 63 - int (sqlite_sequence db)"
      using so rg False by (intro increasing_ids_length) auto
    then show ?thesis by simp
  qed
  have "db_latest (int (length new)) db' = Inr (rev (map row_tuple new))"
    using av assms(2) tel so ab few
    by (intro db_latest_after_append [where rows = rows]) simp_all
  with len tel st so ab show ?thesis by auto
qed

theorem db_insert_all_monotonic_witness:
  "db_insert_all example_lib
       [(PStr ''t1'', PStr ''s1'', 20, 40), (PStr ''t2'', PStr ''s2'', 21, 41)] fresh_db
     = Inr two_rows_db
   \<and> db_latest 2 two_rows_db = Inr [(''t2'', ''s2'', 21, 41), (''t1'', ''s1'', 20, 40)]"
proof -
  have run: "db_insert_all example_lib
       [(PStr ''t1'', PStr ''s1'', 20, 40), (PStr ''t2'', PStr ''s2'', 21, 41)] fresh_db
     = Inr two_rows_db"
    by code_simp
  have "available (fresh_db :: real database)"
    and "telemetry (fresh_db :: real database) = Some []"
    by (simp_all add: fresh_db_def)
  from db_insert_all_monotonic [OF run this] run show ?thesis
    by (auto simp: two_rows_db_def row_tuple_def)
qed

text \<open>
  \<^bold>\<open>C3\<close>, as stated, fails for a count that SQLite cannot take as a 64-bit integer: on a
  table of two rows, fewer than \<open>n = 2^63\<close>, \<^verbatim>\<open>db_latest(n)\<close> raises OverflowError
  where the claim has it return the two rows.
\<close>

theorem db_latest_overflow:
  "db_latest (2 ^ 63) two_rows_db = Inl OverflowError"
  by (simp add: db_latest_def two_rows_db_def)

text \<open>
  \<^bold>\<open>C3\<close>, amended. On a reachable store with its table and for \<open>0 \<le> n < 2^63\<close>: an empty
  table reads back empty; a table with fewer than \<open>n\<close> rows reads back all of them; and
  in general the result is the first \<open>n\<close> rows of the table in reverse insertion order
  (ids increase in insertion order, which \<open>db_insert_keeps_order\<close> maintains). For
  \<open>n \<ge> 2^63\<close> the call raises OverflowError.
\<close>

theorem db_latest_window:
  assumes "available db" and "telemetry db = Some rows"
  shows "(0 \<le> n \<and> n < 2 ^ 63 \<longrightarrow>
            (rows = [] \<longrightarrow> db_latest n db = Inr [])
          \<and> (int (length rows) < n \<longrightarrow>
               (\<exists>out. db_latest n db = Inr out \<and> length out = length rows))
          \<and> (sorted_wrt (<) (map row_id rows) \<longrightarrow>
               db_latest n db = Inr (map row_tuple (take (nat n) (rev rows)))))
       \<and> (2 ^ 63 \<le> n \<longrightarrow> db_latest n db = Inl OverflowError)"
proof -
  have len: "length (order_by_id_desc rows) = length rows"
    by (simp add: order_by_id_desc_def)
  have read: "db_latest n db = Inr (map row_tuple (take (nat n) (order_by_id_desc rows)))"
    if "0 \<le> n \<and> n < 2 ^ 63"
    using assms that by (simp add: db_latest_def sqlite_limit_def)
  have "rows = [] \<longrightarrow> db_latest n db = Inr []" if "0 \<le> n \<and> n < 2 ^ 63"
    using read [OF that] by (simp add: order_by_id_desc_def)
  moreover have "int (length rows) < n \<longrightarrow>
            (\<exists>out. db_latest n db = Inr out \<and> length out = length rows)"
    if "0 \<le> n \<and> n < 2 ^ 63"
    using read [OF that] len by simp
  moreover have "sorted_wrt (<) (map row_id rows) \<longrightarrow>
            db_latest n db = Inr (map row_tuple (take (nat n) (rev rows)))"
    if "0 \<le> n \<and> n < 2 ^ 63"
    using read [OF that] by (simp add: order_by_id_desc_increasing)
  moreover have "2 ^ 63 \<le> n \<longrightarrow> db_latest n db = Inl OverflowError"
    using assms by (simp add: db_latest_def)
  ultimately show ?thesis by blast
qed

theorem db_latest_window_witness:
  "db_latest 5 (fresh_db :: real database) = Inr []
   \<and> db_latest 5 two_rows_db = Inr [(''t2'', ''s2'', 21, 41), (''t1'', ''s1'', 20, 40)]
   \<and> db_latest 1 two_rows_db = Inr [(''t2'', ''s2'', 21, 41)]
   \<and> db_latest (2 ^ 63 + 1) two_rows_db = Inl OverflowError"
proof -
  have empty: "available (fresh_db :: real database)"
    "telemetry (fresh_db :: real database) = Some []"
    by (simp_all add: fresh_db_def)
  have two: "available two_rows_db"
    "telemetry two_rows_db = Some
        [\<lparr>row_id = 1, row_ts = ''t1'', row_sensor = ''s1'', row_temperature = 20, row_humidity = 40\<rparr>,
         \<lparr>row_id = 2, row_ts = ''t2'', row_sensor = ''s2'', row_temperature = 21, row_humidity = 41\<rparr>]"
    by (simp_all add: two_rows_db_def)
  from db_latest_window [OF empty, of 5] db_latest_window [OF two, of 5]
    db_latest_window [OF two, of 1] db_latest_window [OF two, of "2 ^ 63 + 1"]
  show ?thesis
    by (simp add: row_tuple_def)
qed

lemma on_message_try_eq_Inr:
  "on_message_try lib msg db = Inr (x, db') \<longleftrightarrow>
     (\<exists>payload ts x_temp x_hum t h ret.
        json_loads lib msg = Inr payload
      \<and> py_getitem payload ''ts'' = Inr ts
      \<and> py_getitem payload ''sensor'' = Inr x
      \<and> py_getitem payload ''temperature'' = Inr x_temp \<and> py_float lib x_temp = Inr t
      \<and> py_getitem payload ''humidity'' = Inr x_hum \<and> py_float lib x_hum = Inr h
      \<and> db_insert lib ts x t h db = Inr (ret, db'))"
  by (auto simp: on_message_try_def try_bind_eq_Inr)

lemma on_message_caught:
  assumes "\<And>x db'. on_message_try lib msg (store s) \<noteq> Inr (x, db')"
  shows "\<exists>e. on_message lib msg s = Inr \<lparr>store = store s, logged = logged s @ [OnMessageError e]\<rparr>"
proof (cases "on_message_try lib msg (store s)")
  case (Inl e)
  then show ?thesis by (simp add: on_message_def)
next
  case (Inr p)
  then have "on_message_try lib msg (store s) = Inr (fst p, snd p)" by simp
  with assms show ?thesis by blast
qed

lemma on_message_total:
  "\<exists>s'. on_message lib msg s = Inr s' \<and> length (logged s') = Suc (length (logged s))"
  by (cases "on_message_try lib msg (store s)") (auto simp: on_message_def)

text \<open>
  \<^bold>\<open>C4.\<close> Malformed input. If the payload bytes do not decode, or the decoded value lacks
  one of the four keys (or is no mapping at all), or its \<^verbatim>\<open>temperature\<close> or \<^verbatim>\<open>humidity\<close>
  is something \<^verbatim>\<open>float()\<close> rejects, then \<^verbatim>\<open>on_message\<close> returns normally and the store,
  hence its number of rows, is what it was.
\<close>

theorem on_message_malformed:
  assumes "(\<exists>e. json_loads lib msg = Inl e)
         \<or> (\<exists>payload key e. json_loads lib msg = Inr payload
               \<and> key \<in> {''ts'', ''sensor'', ''temperature'', ''humidity''}
               \<and> py_getitem payload key = Inl e)
         \<or> (\<exists>payload key x e. json_loads lib msg = Inr payload
               \<and> key \<in> {''temperature'', ''humidity''}
               \<and> py_getitem payload key = Inr x \<and> py_float lib x = Inl e)"
  shows "\<exists>s'. on_message lib msg s = Inr s' \<and> store s' = store s
           \<and> map_option length (telemetry (store s')) = map_option length (telemetry (store s))"
proof -
  have "on_message_try lib msg (store s) \<noteq> Inr (x, db')" for x db'
    using assms by (auto simp: on_message_try_eq_Inr)
  from on_message_caught [OF this] show ?thesis by auto
qed

theorem on_message_malformed_witness:
  "on_message example_lib ''not json'' \<lparr>store = two_rows_db, logged = []\<rparr>
     = Inr \<lparr>store = two_rows_db, logged = [OnMessageError JSONDecodeError]\<rparr>
   \<and> on_message example_lib msg_missing \<lparr>store = two_rows_db, logged = []\<rparr>
     = Inr \<lparr>store = two_rows_db, logged = [OnMessageError (KeyError ''ts'')]\<rparr>"
proof -
  have undecodable: "json_loads example_lib ''not json'' = Inl JSONDecodeError"
    by (simp add: example_lib_def example_payloads_def msg_valid_def msg_missing_def
        msg_text_temperature_def msg_null_temperature_def msg_extra_key_def)
  have missing: "json_loads example_lib msg_missing = Inr (PDict [(''sensor'', PStr ''x'')])
       \<and> ''temperature'' \<in> {''ts'', ''sensor'', ''temperature'', ''humidity''}
       \<and> py_getitem (PDict [(''sensor'', PStr ''x'') :: string \<times> real pyval]) ''temperature''
           = Inl (KeyError ''temperature'')"
    by (simp add: example_lib_def example_payloads_def msg_valid_def msg_missing_def)
  have a: "\<exists>s'. on_message example_lib ''not json'' \<lparr>store = two_rows_db, logged = []\<rparr> = Inr s'
      \<and> store s' = store \<lparr>store = two_rows_db, logged = ([] :: real log_entry list)\<rparr>
      \<and> map_option length (telemetry (store s'))
          = map_option length (telemetry (store \<lparr>store = two_rows_db, logged = ([] :: real log_entry list)\<rparr>))"
    using undecodable by (intro on_message_malformed) blast
  have b: "\<exists>s'. on_message example_lib msg_missing \<lparr>store = two_rows_db, logged = []\<rparr> = Inr s'
      \<and> store s' = store \<lparr>store = two_rows_db, logged = ([] :: real log_entry list)\<rparr>
      \<and> map_option length (telemetry (store s'))
          = map_option length (telemetry (store \<lparr>store = two_rows_db, logged = ([] :: real log_entry list)\<rparr>))"
    using missing by (intro on_message_malformed) blast
  have "on_message example_lib ''not json'' \<lparr>store = two_rows_db, logged = []\<rparr>
     = Inr \<lparr>store = two_rows_db, logged = [OnMessageError JSONDecodeError]\<rparr>"
    using a undecodable by (simp add: on_message_def on_message_try_def try_bind_def)
  moreover have "on_message example_lib msg_missing \<lparr>store = two_rows_db, logged = []\<rparr>
     = Inr \<lparr>store = two_rows_db, logged = [OnMessageError (KeyError ''ts'')]\<rparr>"
    using b missing by (simp add: on_message_def on_message_try_def try_bind_def)
  ultimately show ?thesis by simp
qed

lemma subscriber_loop_total:
  "\<exists>s'. subscriber_loop lib events s = Inr s'
      \<and> length (logged s') = length (logged s) + length events"
proof (induction events arbitrary: s)
  case Nil
  show ?case by simp
next
  case (Cons ev events)
  obtain up msg where ev: "ev = (up, msg)" by (cases ev) auto
  let ?s = "s\<lparr>store := (store s)\<lparr>available := up\<rparr>\<rparr>"
  from on_message_total [of lib msg ?s] obtain s1
    where s1: "on_message lib msg ?s = Inr s1" and l1: "length (logged s1) = Suc (length (logged s))"
    by auto
  from Cons.IH [of s1] obtain s'
    where "subscriber_loop lib events s1 = Inr s'"
      and "length (logged s') = length (logged s1) + length events"
    by blast
  with s1 l1 show ?case by (simp add: ev)
qed

lemma opcua_tick_reads:
  assumes "available db" and "telemetry db = Some rows"
  shows "\<exists>vars'. opcua_tick lib db vars = Inr vars'"
  using assms
  by (auto simp: opcua_tick_def db_latest_def try_bind_def split: list.splits)

lemma opcua_tick_store_down: "\<not> available db \<Longrightarrow> opcua_tick lib db vars = Inl OperationalError"
  by (simp add: opcua_tick_def db_latest_def try_bind_def)

lemma opcua_loop_append:
  "opcua_loop lib (pre @ rest) vars =
     (case opcua_loop lib pre vars of
        (vars', Interrupted) \<Rightarrow> opcua_loop lib rest vars'
      | (vars', Crashed e) \<Rightarrow> (vars', Crashed e))"
  by (induction pre arbitrary: vars) (auto split: sum.splits)

lemma opcua_loop_all_read:
  "\<forall>d\<in>set dbs. available d \<and> telemetry d \<noteq> None \<Longrightarrow>
     snd (opcua_loop lib dbs vars) = Interrupted"
proof (induction dbs arbitrary: vars)
  case Nil
  show ?case by simp
next
  case (Cons d dbs)
  then obtain rows where "available d" "telemetry d = Some rows" by auto
  from opcua_tick_reads [OF this] obtain vars' where "opcua_tick lib d vars = Inr vars'"
    by blast
  with Cons show ?case by simp
qed

text \<open>
  \<^bold>\<open>C5\<close>, as stated, fails for the OPC UA server: its loop handles \<^verbatim>\<open>KeyboardInterrupt\<close>
  only. When the store cannot be read on the first tick, the error leaves the loop, the
  second tick (which would have found two rows) never runs, and the live variables keep
  their initial values.
\<close>

theorem opcua_loop_stops_on_store_error:
  "opcua_loop example_lib [two_rows_db\<lparr>available := False\<rparr>, two_rows_db] initial_vars
     = (initial_vars, Crashed OperationalError)"
  by (simp add: opcua_tick_def db_latest_def try_bind_def two_rows_db_def)

text \<open>
  \<^bold>\<open>C5\<close>, amended. In the subscriber no error crosses a message boundary: whatever the
  messages and whatever the state of the store at each of them, the loop handles every
  message and writes one log entry for each. In the OPC UA server the loop runs as long
  as the reads succeed; the first tick that finds the store unreachable ends the loop
  with that error, whatever would have come after.
\<close>

theorem loop_error_boundaries:
  "(\<exists>s'. subscriber_loop lib events s = Inr s'
        \<and> length (logged s') = length (logged s) + length events)
   \<and> ((\<forall>d\<in>set dbs. available d \<and> telemetry d \<noteq> None) \<longrightarrow>
        snd (opcua_loop lib dbs vars) = Interrupted)
   \<and> ((\<forall>d\<in>set dbs. available d \<and> telemetry d \<noteq> None) \<and> \<not> available db \<longrightarrow>
        opcua_loop lib (dbs @ db # rest) vars
          = (fst (opcua_loop lib dbs vars), Crashed OperationalError))"
proof -
  have "(\<forall>d\<in>set dbs. available d \<and> telemetry d \<noteq> None) \<and> \<not> available db \<longrightarrow>
        opcua_loop lib (dbs @ db # rest) vars
          = (fst (opcua_loop lib dbs vars), Crashed OperationalError)"
  proof (intro impI, elim conjE)
    assume ok: "\<forall>d\<in>set dbs. available d \<and> telemetry d \<noteq> None" and down: "\<not> available db"
    obtain vars' where pre: "opcua_loop lib dbs vars = (vars', Interrupted)"
      using opcua_loop_all_read [OF ok, of lib vars] by (cases "opcua_loop lib dbs vars") auto
    show "opcua_loop lib (dbs @ db # rest) vars
          = (fst (opcua_loop lib dbs vars), Crashed OperationalError)"
      using pre by (simp add: opcua_loop_append opcua_tick_store_down [OF down])
  qed
  then show ?thesis
    using subscriber_loop_total [of lib events s] opcua_loop_all_read [of dbs lib vars]
    by blast
qed

theorem loop_error_boundaries_witness:
  "subscriber_loop example_lib [(False, msg_valid), (True, msg_missing), (True, msg_valid)]
       \<lparr>store = fresh_db, logged = []\<rparr>
     = Inr \<lparr>store = \<lparr>available = True,
                      telemetry = Some [\<lparr>row_id = 1, row_ts = ''2024-01-01T00:00:00'',
                         row_sensor = ''sensor-001'', row_temperature = 24.5, row_humidity = 55\<rparr>],
                      sqlite_sequence = 1\<rparr>,
            logged = [OnMessageError OperationalError, OnMessageError (KeyError ''ts''),
                      Ingested (PStr ''sensor-001'')]\<rparr>
   \<and> opcua_loop example_lib [fresh_db, two_rows_db] initial_vars
     = (\<lparr>v_temp = 21, v_hum = 41, v_sensor = ''s2''\<rparr>, Interrupted)
   \<and> opcua_loop example_lib [two_rows_db, fresh_db\<lparr>available := False\<rparr>, fresh_db] initial_vars
     = (\<lparr>v_temp = 21, v_hum = 41, v_sensor = ''s2''\<rparr>, Crashed OperationalError)"
proof -
  have sub: "subscriber_loop example_lib [(False, msg_valid), (True, msg_missing), (True, msg_valid)]
       \<lparr>store = fresh_db, logged = []\<rparr>
     = Inr \<lparr>store = \<lparr>available = True,
                      telemetry = Some [\<lparr>row_id = 1, row_ts = ''2024-01-01T00:00:00'',
                         row_sensor = ''sensor-001'', row_temperature = 24.5, row_humidity = 55\<rparr>],
                      sqlite_sequence = 1\<rparr>,
            logged = [OnMessageError OperationalError, OnMessageError (KeyError ''ts''),
                      Ingested (PStr ''sensor-001'')]\<rparr>"
    by code_simp
  have one: "opcua_loop example_lib [two_rows_db] initial_vars
     = (\<lparr>v_temp = 21, v_hum = 41, v_sensor = ''s2''\<rparr>, Interrupted)"
    by (simp add: opcua_tick_def db_latest_def try_bind_def two_rows_db_def initial_vars_def
        sqlite_limit_def order_by_id_desc_def row_tuple_def)
  have two: "opcua_loop example_lib [fresh_db, two_rows_db] initial_vars
     = (\<lparr>v_temp = 21, v_hum = 41, v_sensor = ''s2''\<rparr>, Interrupted)"
    by (simp add: opcua_tick_def db_latest_def try_bind_def two_rows_db_def initial_vars_def
        sqlite_limit_def order_by_id_desc_def row_tuple_def fresh_db_def)
  have ok: "\<forall>d\<in>set [two_rows_db]. available d \<and> telemetry d \<noteq> None"
    by (simp add: two_rows_db_def)
  have down: "\<not> available (fresh_db\<lparr>available := False\<rparr> :: real database)"
    by simp
  from loop_error_boundaries [of example_lib "[]" "\<lparr>store = fresh_db, logged = []\<rparr>"
      "[two_rows_db]" initial_vars "fresh_db\<lparr>available := False\<rparr>" "[fresh_db]"] ok down
  have "opcua_loop example_lib ([two_rows_db] @ fresh_db\<lparr>available := False\<rparr> # [fresh_db])
          initial_vars
        = (fst (opcua_loop example_lib [two_rows_db] initial_vars), Crashed OperationalError)"
    by blast
  with one have "opcua_loop example_lib [two_rows_db, fresh_db\<lparr>available := False\<rparr>, fresh_db]
       initial_vars = (\<lparr>v_temp = 21, v_hum = 41, v_sensor = ''s2''\<rparr>, Crashed OperationalError)"
    by simp
  with sub two show ?thesis by simp
qed




text \<open>
  \<^bold>\<open>C7\<close>, as stated, fails on its own example: a temperature carried as the string
  \<^verbatim>\<open>"24.5"\<close> goes through \<^verbatim>\<open>float()\<close>, which parses it, and the row is appended.
\<close>

theorem on_message_accepts_text_temperature:
  "on_message example_lib msg_text_temperature \<lparr>store = fresh_db, logged = []\<rparr>
     = Inr \<lparr>store = \<lparr>available = True,
                      telemetry = Some [\<lparr>row_id = 1, row_ts = ''t1'', row_sensor = ''s1'',
                                         row_temperature = 24.5, row_humidity = 55\<rparr>],
                      sqlite_sequence = 1\<rparr>,
            logged = [Ingested (PStr ''s1'')]\<rparr>"
  by code_simp

text \<open>
  \<^bold>\<open>C7\<close>, amended. A decoded payload is discarded, with the error logged and the store
  untouched, when a required key cannot be read from it, when its temperature or
  humidity is a value that \<^verbatim>\<open>float()\<close> rejects, or when its ts or sensor is a value the
  TEXT column cannot take (null, a list, an object, a string with a lone surrogate).
\<close>

theorem on_message_rejects:
  assumes "json_loads lib msg = Inr payload"
    and "(\<exists>key e. key \<in> {''ts'', ''sensor'', ''temperature'', ''humidity''}
              \<and> py_getitem payload key = Inl e)
       \<or> (\<exists>key x e. key \<in> {''temperature'', ''humidity''}
              \<and> py_getitem payload key = Inr x \<and> py_float lib x = Inl e)
       \<or> (\<exists>key x e. key \<in> {''ts'', ''sensor''}
              \<and> py_getitem payload key = Inr x \<and> sqlite_text_column lib x = Inl e)"
  shows "\<exists>e. on_message lib msg s
              = Inr \<lparr>store = store s, logged = logged s @ [OnMessageError e]\<rparr>"
proof -
  have "on_message_try lib msg (store s) \<noteq> Inr (x, db')" for x db'
    using assms by (auto simp: on_message_try_eq_Inr db_insert_eq_Inr)
  from on_message_caught [OF this] show ?thesis .
qed

theorem on_message_rejects_witness:
  "on_message example_lib msg_null_temperature \<lparr>store = two_rows_db, logged = []\<rparr>
     = Inr \<lparr>store = two_rows_db, logged = [OnMessageError TypeError]\<rparr>"
proof -
  let ?payload = "PDict [(''ts'', PStr ''t3''), (''sensor'', PStr ''s3''),
                    (''temperature'', PNone), (''humidity'', PFloat (50 :: real))]"
  have loads: "json_loads example_lib msg_null_temperature = Inr ?payload"
    by code_simp
  have "''temperature'' \<in> {''temperature'', ''humidity''}
      \<and> py_getitem ?payload ''temperature'' = Inr PNone
      \<and> py_float example_lib PNone = Inl TypeError"
    by simp
  then have bad: "(\<exists>key e. key \<in> {''ts'', ''sensor'', ''temperature'', ''humidity''}
              \<and> py_getitem ?payload key = Inl e)
       \<or> (\<exists>key x e. key \<in> {''temperature'', ''humidity''}
              \<and> py_getitem ?payload key = Inr x \<and> py_float example_lib x = Inl e)
       \<or> (\<exists>key x e. key \<in> {''ts'', ''sensor''}
              \<and> py_getitem ?payload key = Inr x \<and> sqlite_text_column example_lib x = Inl e)"
    by blast
  from on_message_rejects [OF loads bad, of "\<lparr>store = two_rows_db, logged = []\<rparr>"]
  obtain e where caught: "on_message example_lib msg_null_temperature
        \<lparr>store = two_rows_db, logged = []\<rparr>
     = Inr \<lparr>store = two_rows_db, logged = [OnMessageError e]\<rparr>"
    by auto
  have "on_message_try example_lib msg_null_temperature two_rows_db = Inl TypeError"
    using loads by (simp add: on_message_try_def try_bind_def)
  then have "on_message example_lib msg_null_temperature \<lparr>store = two_rows_db, logged = []\<rparr>
     = Inr \<lparr>store = two_rows_db, logged = [OnMessageError TypeError]\<rparr>"
    by (simp add: on_message_def)
  with caught show ?thesis by simp
qed

lemma db_init_eq:
  "available db \<Longrightarrow>
     db_init db = Inr (PNone, db\<lparr>telemetry := Some (case telemetry db of None \<Rightarrow> [] | Some rows \<Rightarrow> rows)\<rparr>)"
  by (simp add: db_init_def)

lemma db_init_fixed:
  "available db \<Longrightarrow> telemetry db = Some rows \<Longrightarrow> db_init db = Inr (PNone, db)"
  by (simp add: db_init_def)

lemma db_init_repeat_fixed:
  "available db \<Longrightarrow> telemetry db = Some rows \<Longrightarrow> db_init_repeat k db = Inr db"
  by (induction k) (simp_all add: db_init_fixed)

text \<open>
  \<^bold>\<open>C8.\<close> \<^verbatim>\<open>db_init\<close> is idempotent. On a reachable store the first call succeeds and
  leaves a store on which every further call succeeds and changes nothing, so any number
  of calls in a row ends in the state the first one produced. The table then exists; if
  it existed before, the store (rows and AUTOINCREMENT counter included) is untouched.
\<close>

theorem db_init_idempotent:
  assumes "available db"
  shows "\<exists>db1. db_init db = Inr (PNone, db1)
           \<and> db_init db1 = Inr (PNone, db1)
           \<and> db_init_repeat (Suc k) db = Inr db1
           \<and> telemetry db1 = Some (case telemetry db of None \<Rightarrow> [] | Some rows \<Rightarrow> rows)
           \<and> (telemetry db \<noteq> None \<longrightarrow> db1 = db)
           \<and> sqlite_sequence db1 = sqlite_sequence db"
proof -
  let ?db1 = "db\<lparr>telemetry := Some (case telemetry db of None \<Rightarrow> [] | Some rows \<Rightarrow> rows)\<rparr>"
  have first: "db_init db = Inr (PNone, ?db1)"
    using assms by (rule db_init_eq)
  have av: "available ?db1"
    and tab: "telemetry ?db1 = Some (case telemetry db of None \<Rightarrow> [] | Some rows \<Rightarrow> rows)"
    using assms by simp_all
  have again: "db_init ?db1 = Inr (PNone, ?db1)"
    using av tab by (rule db_init_fixed)
  have "db_init_repeat k ?db1 = Inr ?db1"
    using av tab by (rule db_init_repeat_fixed)
  then have many: "db_init_repeat (Suc k) db = Inr ?db1"
    using first by simp
  have same: "telemetry db \<noteq> None \<longrightarrow> ?db1 = db"
    by auto
  from first again many tab same show ?thesis
    by (intro exI [of _ ?db1]) simp
qed

theorem db_init_idempotent_witness:
  "db_init (empty_db :: real database) = Inr (PNone, fresh_db)
   \<and> db_init (fresh_db :: real database) = Inr (PNone, fresh_db)
   \<and> db_init_repeat 3 (empty_db :: real database) = Inr fresh_db
   \<and> db_init two_rows_db = Inr (PNone, two_rows_db)"
proof -
  have e: "available (empty_db :: real database)" by (simp add: empty_db_def)
  have t: "available two_rows_db" by (simp add: two_rows_db_def)
  have three: "(3 :: nat) = Suc 2" by simp
  from db_init_idempotent [OF e, of 2] db_init_idempotent [OF t, of 0]
  show ?thesis
    unfolding three
    by (auto simp: empty_db_def fresh_db_def two_rows_db_def db_init_def)
qed

text \<open>
  \<^bold>\<open>C9.\<close> One tick of the OPC UA loop. When \<^verbatim>\<open>db_latest(1)\<close> returns no row the tick
  returns normally and the three live variables are what they were; when it returns a
  row the tick writes that row's temperature, humidity and sensor into them. A
  reachable store with an empty table is an instance of the first case.
\<close>

theorem opcua_tick_mirrors_latest:
  "(db_latest 1 db = Inr [] \<longrightarrow> opcua_tick lib db vars = Inr vars)
   \<and> (db_latest 1 db = Inr ((ts, sensor, t, h) # older) \<longrightarrow>
        opcua_tick lib db vars = Inr (vars\<lparr>v_temp := t, v_hum := h, v_sensor := sensor\<rparr>))
   \<and> (available db \<and> telemetry db = Some [] \<longrightarrow> opcua_tick lib db vars = Inr vars)"
  by (simp add: opcua_tick_def try_bind_def db_latest_def sqlite_limit_def order_by_id_desc_def)

theorem opcua_tick_mirrors_latest_witness:
  "opcua_tick example_lib fresh_db initial_vars = Inr initial_vars
   \<and> opcua_tick example_lib two_rows_db initial_vars
       = Inr \<lparr>v_temp = 21, v_hum = 41, v_sensor = ''s2''\<rparr>"
proof -
  have none: "db_latest 1 (fresh_db :: real database) = Inr []"
    by (simp add: db_latest_def fresh_db_def sqlite_limit_def order_by_id_desc_def)
  have one: "db_latest 1 two_rows_db = Inr ((''t2'', ''s2'', 21, 41) # [])"
    by (simp add: db_latest_def two_rows_db_def sqlite_limit_def order_by_id_desc_def
        row_tuple_def)
  from opcua_tick_mirrors_latest [where db = fresh_db and lib = example_lib
      and vars = initial_vars] none
  have a: "opcua_tick example_lib fresh_db initial_vars = Inr initial_vars"
    by blast
  from opcua_tick_mirrors_latest [where db = two_rows_db and ts = "''t2''" and sensor = "''s2''"
      and t = 21 and h = 41 and older = "[]" and lib = example_lib and vars = initial_vars]
    one
  have "opcua_tick example_lib two_rows_db initial_vars
       = Inr (initial_vars\<lparr>v_temp := 21, v_hum := 41, v_sensor := ''s2''\<rparr>)"
    by blast
  with a show ?thesis by (simp add: initial_vars_def)
qed

text \<open>
  \<^bold>\<open>C10\<close>, as stated, fails for a mapping whose four values all coerce: with a humidity
  that is the float NaN (and an extra key), \<^verbatim>\<open>float()\<close> succeeds, SQLite takes the NaN
  as NULL, the NOT NULL column refuses the row, and the message is discarded.
\<close>

theorem on_message_drops_nan_mapping:
  "on_message nan_lib msg_nan_extra_key \<lparr>store = fresh_db, logged = []\<rparr>
     = Inr \<lparr>store = fresh_db, logged = [OnMessageError IntegrityError]\<rparr>"
  using nan_lib_loads_nan_extra_key
  by (simp add: on_message_def on_message_try_def try_bind_def db_insert_def
      sqlite_real_column_def next_rowid_def fresh_db_def nan_lib_def)

text \<open>
  \<^bold>\<open>C10\<close>, amended. The decoded mapping \<open>kvs\<close> is arbitrary apart from its four required
  entries: \<^verbatim>\<open>ts\<close> and \<^verbatim>\<open>sensor\<close> are values the TEXT columns can hold, and \<^verbatim>\<open>float()\<close> coerces
  \<^verbatim>\<open>temperature\<close> and \<^verbatim>\<open>humidity\<close> to \<open>t\<close> and \<open>h\<close>; the store is reachable, has its table and
  has a row id left. If neither \<open>t\<close> nor \<open>h\<close> is NaN, \<^verbatim>\<open>on_message\<close> appends exactly one row,
  made of those four values and a fresh id, and the resulting state depends on nothing
  else in \<open>kvs\<close>. If one of them is NaN, the message is discarded with the NOT NULL
  violation logged, whatever else \<open>kvs\<close> holds.
\<close>

theorem on_message_ignores_extra_keys:
  assumes "json_loads lib msg = Inr (PDict kvs)"
    and "map_of kvs ''ts'' = Some x_ts" "map_of kvs ''sensor'' = Some x_sensor"
    and "map_of kvs ''temperature'' = Some x_temp" "map_of kvs ''humidity'' = Some x_hum"
    and "sqlite_text_column lib x_ts = Inr a" "sqlite_text_column lib x_sensor = Inr b"
    and "py_float lib x_temp = Inr t" "py_float lib x_hum = Inr h"
    and "available (store s)" "telemetry (store s) = Some rows"
    and "next_rowid (sqlite_sequence (store s)) rows < 2 ^ 63"
  shows "(\<not> is_nan lib t \<and> \<not> is_nan lib h \<longrightarrow>
          on_message lib msg s =
           Inr \<lparr>store = (store s)\<lparr>telemetry := Some (rows @
                     [\<lparr>row_id = next_rowid (sqlite_sequence (store s)) rows, row_ts = a,
                       row_sensor = b, row_temperature = t, row_humidity = h\<rparr>]),
                   sqlite_sequence := nat (next_rowid (sqlite_sequence (store s)) rows)\<rparr>,
                 logged = logged s @ [Ingested x_sensor]\<rparr>)
       \<and> (is_nan lib t \<or> is_nan lib h \<longrightarrow>
          on_message lib msg s
            = Inr \<lparr>store = store s, logged = logged s @ [OnMessageError IntegrityError]\<rparr>)"
proof -
  have body: "on_message_try lib msg (store s) =
          try_bind (db_insert lib x_ts x_sensor t h (store s)) (\<lambda>(none, db'). Inr (x_sensor, db'))"
    using assms(1-5,8,9) by (rule on_message_try_accepts)
  have stored: "on_message lib msg s =
           Inr \<lparr>store = (store s)\<lparr>telemetry := Some (rows @
                     [\<lparr>row_id = next_rowid (sqlite_sequence (store s)) rows, row_ts = a,
                       row_sensor = b, row_temperature = t, row_humidity = h\<rparr>]),
                   sqlite_sequence := nat (next_rowid (sqlite_sequence (store s)) rows)\<rparr>,
                 logged = logged s @ [Ingested x_sensor]\<rparr>"
    if "\<not> is_nan lib t \<and> \<not> is_nan lib h"
  proof -
    have "db_insert lib x_ts x_sensor t h (store s) =
           Inr (PNone, (store s)\<lparr>telemetry := Some (rows @
                     [\<lparr>row_id = next_rowid (sqlite_sequence (store s)) rows, row_ts = a,
                       row_sensor = b, row_temperature = t, row_humidity = h\<rparr>]),
                   sqlite_sequence := nat (next_rowid (sqlite_sequence (store s)) rows)\<rparr>)"
      using assms(10,11,6,7) that assms(12) by (intro db_insert_accepts) simp_all
    with body show ?thesis
      by (simp add: on_message_def try_bind_Inr)
  qed
  have dropped: "on_message lib msg s
            = Inr \<lparr>store = store s, logged = logged s @ [OnMessageError IntegrityError]\<rparr>"
    if "is_nan lib t \<or> is_nan lib h"
  proof -
    have "db_insert lib x_ts x_sensor t h (store s) = Inl IntegrityError"
      using assms(10,11,6,7,12) that by (rule db_insert_refuses_nan)
    with body show ?thesis
      by (simp add: on_message_def try_bind_Inl)
  qed
  from stored dropped show ?thesis by blast
qed

theorem on_message_ignores_extra_keys_witness:
  "on_message example_lib msg_extra_key \<lparr>store = two_rows_db, logged = []\<rparr>
     = Inr \<lparr>store = \<lparr>available = True, telemetry = Some
        [\<lparr>row_id = 1, row_ts = ''t1'', row_sensor = ''s1'', row_temperature = 20, row_humidity = 40\<rparr>,
         \<lparr>row_id = 2, row_ts = ''t2'', row_sensor = ''s2'', row_temperature = 21, row_humidity = 41\<rparr>,
         \<lparr>row_id = 3, row_ts = ''t2'', row_sensor = ''s2'', row_temperature = 21, row_humidity = 40.5\<rparr>],
        sqlite_sequence = 3\<rparr>,
            logged = [Ingested (PStr ''s2'')]\<rparr>
   \<and> on_message nan_lib msg_nan_extra_key \<lparr>store = fresh_db, logged = []\<rparr>
     = Inr \<lparr>store = fresh_db, logged = [OnMessageError IntegrityError]\<rparr>"
proof -
  let ?kvs = "[(''ts'', PStr ''t2''), (''sensor'', PStr ''s2''),
               (''temperature'', PInt 21), (''humidity'', PFloat (40.5 :: real)),
               (''unit'', PStr ''C'')]"
  let ?s = "\<lparr>store = two_rows_db, logged = ([] :: real log_entry list)\<rparr>"
  let ?rows = "[\<lparr>row_id = 1, row_ts = ''t1'', row_sensor = ''s1'',
                  row_temperature = (20 :: real), row_humidity = 40\<rparr>,
                \<lparr>row_id = 2, row_ts = ''t2'', row_sensor = ''s2'',
                  row_temperature = 21, row_humidity = 41\<rparr>]"
  have loads: "json_loads example_lib msg_extra_key = Inr (PDict ?kvs)"
    by code_simp
  have keys: "map_of ?kvs ''ts'' = Some (PStr ''t2'')" "map_of ?kvs ''sensor'' = Some (PStr ''s2'')"
    "map_of ?kvs ''temperature'' = Some (PInt 21)" "map_of ?kvs ''humidity'' = Some (PFloat 40.5)"
    by simp_all
  have cols: "sqlite_text_column example_lib (PStr ''t2'' :: real pyval) = Inr ''t2''"
    "sqlite_text_column example_lib (PStr ''s2'' :: real pyval) = Inr ''s2''"
    by (simp_all add: sqlite_text_column_PStr)
  have nums: "py_float example_lib (PInt 21) = Inr 21"
    "py_float example_lib (PFloat 40.5) = Inr 40.5"
    by (simp_all add: example_lib_def)
  have db: "available (store ?s)" "telemetry (store ?s) = Some ?rows"
    "next_rowid (sqlite_sequence (store ?s)) ?rows < 2 ^ 63"
    by (simp_all add: two_rows_db_def next_rowid_def)
  have fine: "\<not> is_nan example_lib 21 \<and> \<not> is_nan example_lib 40.5"
    by (simp add: example_lib_def)
  let ?nkvs = "[(''ts'', PStr ''t6''), (''sensor'', PStr ''s6''),
                (''temperature'', PInt 21), (''humidity'', PFloat NaN),
                (''unit'', PStr ''C'')]"
  let ?ns = "\<lparr>store = fresh_db, logged = ([] :: xfloat log_entry list)\<rparr>"
  have nloads: "json_loads nan_lib msg_nan_extra_key = Inr (PDict ?nkvs)"
    by (rule nan_lib_loads_nan_extra_key)
  have nkeys: "map_of ?nkvs ''ts'' = Some (PStr ''t6'')" "map_of ?nkvs ''sensor'' = Some (PStr ''s6'')"
    "map_of ?nkvs ''temperature'' = Some (PInt 21)" "map_of ?nkvs ''humidity'' = Some (PFloat NaN)"
    by simp_all
  have ncols: "sqlite_text_column nan_lib (PStr ''t6'' :: xfloat pyval) = Inr ''t6''"
    "sqlite_text_column nan_lib (PStr ''s6'' :: xfloat pyval) = Inr ''s6''"
    by (simp_all add: sqlite_text_column_PStr)
  have nnums: "py_float nan_lib (PInt 21) = Inr (Number 21)"
    "py_float nan_lib (PFloat NaN) = Inr NaN"
    by (simp_all add: nan_lib_def)
  have ndb: "available (store ?ns)" "telemetry (store ?ns) = Some []"
    "next_rowid (sqlite_sequence (store ?ns)) ([] :: xfloat row list) < 2 ^ 63"
    by (simp_all add: fresh_db_def next_rowid_def)
  have bad: "is_nan nan_lib (Number 21) \<or> is_nan nan_lib NaN"
    by (simp add: nan_lib_def)
  from on_message_ignores_extra_keys [OF loads keys cols nums db] fine
  have "on_message example_lib msg_extra_key ?s =
           Inr \<lparr>store = (store ?s)\<lparr>telemetry := Some (?rows @
                     [\<lparr>row_id = next_rowid (sqlite_sequence (store ?s)) ?rows, row_ts = ''t2'',
                       row_sensor = ''s2'', row_temperature = 21, row_humidity = 40.5\<rparr>]),
                   sqlite_sequence := nat (next_rowid (sqlite_sequence (store ?s)) ?rows)\<rparr>,
                 logged = logged ?s @ [Ingested (PStr ''s2'')]\<rparr>"
    by blast
  then have first: "on_message example_lib msg_extra_key \<lparr>store = two_rows_db, logged = []\<rparr>
     = Inr \<lparr>store = \<lparr>available = True, telemetry = Some
        [\<lparr>row_id = 1, row_ts = ''t1'', row_sensor = ''s1'', row_temperature = 20, row_humidity = 40\<rparr>,
         \<lparr>row_id = 2, row_ts = ''t2'', row_sensor = ''s2'', row_temperature = 21, row_humidity = 41\<rparr>,
         \<lparr>row_id = 3, row_ts = ''t2'', row_sensor = ''s2'', row_temperature = 21, row_humidity = 40.5\<rparr>],
        sqlite_sequence = 3\<rparr>,
            logged = [Ingested (PStr ''s2'')]\<rparr>"
    by (simp add: two_rows_db_def next_rowid_def)
  from on_message_ignores_extra_keys [OF nloads nkeys ncols nnums ndb] bad
  have "on_message nan_lib msg_nan_extra_key ?ns
     = Inr \<lparr>store = store ?ns, logged = logged ?ns @ [OnMessageError IntegrityError]\<rparr>"
    by blast
  with first show ?thesis by simp
qed

end
